theory Spec2Isabelle
  imports Complex_Main
begin

section \<open>The keychain customizer page (src/app/customizer/page.tsx)\<close>

text \<open>
  The page component keeps its data in React state cells and changes them only inside
  event handlers, each of which runs to completion. The embedding is explicit state
  passing: one record \<open>page\<close> holds every state cell, each handler is a function from
  the page (and the event's data) to the new page, and \<open>step\<close> dispatches an event to
  its handler the way the JSX wires it.

  JavaScript numbers are modelled as real numbers. The model adds 0.1 to the zoom or
  subtracts it, takes minima and maxima, and copies constants; it does no other
  arithmetic. The state cell \<open>previewUrl\<close> (a snapshot of the canvas) and the timers
  that refresh it are left out; no handler reads them.
\<close>

subsection \<open>Data model\<close>

datatype mode = Fixed | Manual

text \<open>
  \<open>CharmItem\<close>. The fields \<open>id, x, y, z\<close> are named \<open>item_id, item_x, item_y, item_z\<close>.
  An id is the string returned by \<open>crypto.randomUUID()\<close>; the model identifies it with
  the number of the draw that produced it (see \<open>randomUUID\<close>).
\<close>

record charm_item =
  item_id :: nat
  charmIndex :: int
  item_x :: real
  item_y :: real
  item_z :: real

record slots =
  slot_A :: "int option"
  slot_B :: "int option"
  slot_C :: "int option"

record selection =
  mode :: mode
  baseIndex :: int
  slots :: slots
  manualItems :: "charm_item list"
  zoom :: real

text \<open>
  The \<open>onConfirm\<close> callback of the confirmation modal is one of three closures of the
  source: the initial empty function, the one built in \<open>switchMode\<close> and the one built
  in \<open>handleReset\<close>.
\<close>

datatype confirm_action = NoAction | ConfirmSwitchFixed | ConfirmReset

record confirm_modal =
  isOpen :: bool
  title :: string
  message :: string
  onConfirm :: confirm_action

record page =
  state :: selection
  isEditing :: bool
  draggedItem :: "nat option"
  dragOffset :: "real \<times> real"
  confirmModal :: confirm_modal
  uuid_count :: nat

definition initial_state :: selection where
  "initial_state =
     \<lparr>mode = Fixed, baseIndex = 0,
      slots = \<lparr>slot_A = None, slot_B = None, slot_C = None\<rparr>,
      manualItems = [], zoom = 0.65\<rparr>"

definition initial_page :: page where
  "initial_page =
     \<lparr>state = initial_state, isEditing = True, draggedItem = None,
      dragOffset = (0, 0),
      confirmModal = \<lparr>isOpen = False, title = [], message = [], onConfirm = NoAction\<rparr>,
      uuid_count = 0\<rparr>"

definition showConfirm :: "string \<Rightarrow> string \<Rightarrow> confirm_action \<Rightarrow> page \<Rightarrow> page" where
  "showConfirm t m act p =
     p\<lparr>confirmModal := \<lparr>isOpen = True, title = t, message = m, onConfirm = act\<rparr>\<rparr>"

definition closeConfirm :: "page \<Rightarrow> page" where
  "closeConfirm p = p\<lparr>confirmModal := (confirmModal p)\<lparr>isOpen := False\<rparr>\<rparr>"

subsection \<open>Constants\<close>

definition CANVAS_SIZE :: real where
  "CANVAS_SIZE = 800"

record position =
  pos_x :: real
  pos_y :: real
  pos_scale :: real

definition CHARM_POSITIONS_C :: position where
  "CHARM_POSITIONS_C = \<lparr>pos_x = 0.5, pos_y = 0.31, pos_scale = 0.28\<rparr>"

definition CHARM_POSITIONS_B :: position where
  "CHARM_POSITIONS_B = \<lparr>pos_x = 0.5, pos_y = 0.58, pos_scale = 0.28\<rparr>"

definition CHARM_POSITIONS_A :: position where
  "CHARM_POSITIONS_A = \<lparr>pos_x = 0.5, pos_y = 0.85, pos_scale = 0.28\<rparr>"

subsection \<open>The canvas ref\<close>

text \<open>
  \<open>const canvasRef = useRef<HTMLCanvasElement>(null)\<close>. Nothing in the source assigns
  \<open>canvasRef.current\<close>, and no element of the JSX carries \<open>ref={canvasRef}\<close>: the
  \<open>canvas\<close> element has its seven event handlers and no other attribute. So
  \<open>canvasRef.current\<close> is \<open>null\<close> whenever a handler or the effect reads it.

  Three handlers and the render effect start with
  \<open>const canvas = canvasRef.current; if (!canvas) return;\<close>. They are modelled up to
  that statement, which returns. What follows it in the source (the hit test, the move
  of the dragged item, the placement of a dropped item, \<open>render\<close> and its calls of
  \<open>loadImage\<close>) is never executed; the \<open>case\<close> expressions below have no branch for a
  canvas element, and nothing is stated about one.
\<close>

typedecl html_canvas

definition canvasRef_current :: "html_canvas option" where
  "canvasRef_current = None"

text \<open>
  A pointer event is a mouse (or drag) event with \<open>clientX, clientY\<close>, or a touch event
  with its \<open>touches\<close> and \<open>changedTouches\<close> lists.
\<close>

datatype pointer_event =
  MouseEvent real real
  | TouchEvent "(real \<times> real) list" "(real \<times> real) list"

subsection \<open>Mode switching\<close>

text \<open>
  \<open>crypto.randomUUID()\<close> is modelled as a supply that never repeats: the page carries
  the number of ids drawn so far, and the next id is that number.
\<close>

definition randomUUID :: "nat \<Rightarrow> nat \<times> nat" where
  "randomUUID n = (n, Suc n)"

text \<open>One line \<open>if (state.slots.S !== null) newItems.push({...})\<close> of \<open>switchMode\<close>.\<close>

fun push_slot :: "int option \<Rightarrow> position \<Rightarrow> nat \<times> charm_item list \<Rightarrow> nat \<times> charm_item list" where
  "push_slot None pos (n, newItems) = (n, newItems)"
| "push_slot (Some c) pos (n, newItems) =
     (case randomUUID n of
        (uuid, n') \<Rightarrow>
          (n', newItems @
             [\<lparr>item_id = uuid, charmIndex = c, item_x = pos_x pos, item_y = pos_y pos,
               item_z = pos_scale pos\<rparr>]))"

definition slots_to_items :: "slots \<Rightarrow> nat \<Rightarrow> nat \<times> charm_item list" where
  "slots_to_items sl n =
     push_slot (slot_C sl) CHARM_POSITIONS_C
       (push_slot (slot_B sl) CHARM_POSITIONS_B
          (push_slot (slot_A sl) CHARM_POSITIONS_A (n, [])))"

definition switchMode :: "mode \<Rightarrow> page \<Rightarrow> page" where
  "switchMode newMode p =
     (if newMode = mode (state p) then p
      else if newMode = Manual \<and> mode (state p) = Fixed then
        (case slots_to_items (slots (state p)) (uuid_count p) of
           (n', newItems) \<Rightarrow>
             p\<lparr>state := (state p)\<lparr>mode := Manual, manualItems := newItems\<rparr>,
               isEditing := True, uuid_count := n'\<rparr>)
      else if newMode = Fixed then
        showConfirm ''Kembali ke Template Mode?''
          ''Posisi manual Anda akan hilang jika kembali ke mode ini. Lanjutkan?''
          ConfirmSwitchFixed p
      else p)"

subsection \<open>Canvas interaction (manual mode)\<close>

definition handleCanvasMouseDown :: "pointer_event \<Rightarrow> page \<Rightarrow> page" where
  "handleCanvasMouseDown e p =
     (if mode (state p) \<noteq> Manual \<or> \<not> isEditing p then p
      else case canvasRef_current of None \<Rightarrow> p)"

definition handleCanvasMouseMove :: "pointer_event \<Rightarrow> page \<Rightarrow> page" where
  "handleCanvasMouseMove e p =
     (case draggedItem p of
        None \<Rightarrow> p
      | Some dragged \<Rightarrow>
          if mode (state p) \<noteq> Manual \<or> \<not> isEditing p then p
          else case canvasRef_current of None \<Rightarrow> p)"

definition handleCanvasMouseUp :: "page \<Rightarrow> page" where
  "handleCanvasMouseUp p =
     (case draggedItem p of None \<Rightarrow> p | Some d \<Rightarrow> p\<lparr>draggedItem := None\<rparr>)"

text \<open>
  \<open>handleDrop\<close>. The payload is \<open>parseInt(e.dataTransfer.getData("charmIndex"))\<close>:
  \<open>None\<close> stands for NaN. A drag event carries \<open>clientX, clientY\<close>.
\<close>

definition handleDrop :: "int option \<Rightarrow> real \<Rightarrow> real \<Rightarrow> page \<Rightarrow> page" where
  "handleDrop payload clientX clientY p =
     (if mode (state p) \<noteq> Manual \<or> \<not> isEditing p then p
      else case payload of
        None \<Rightarrow> p
      | Some ci \<Rightarrow> (case canvasRef_current of None \<Rightarrow> p))"

subsection \<open>Handlers written inline in the JSX\<close>

text \<open>The \<open>onClick\<close> of a charm in the manual-mode palette.\<close>

definition paletteClick :: "int \<Rightarrow> page \<Rightarrow> page" where
  "paletteClick idx p =
     (if isEditing p then
        (case randomUUID (uuid_count p) of
           (uuid, n') \<Rightarrow>
             p\<lparr>state := (state p)\<lparr>manualItems := manualItems (state p) @
                  [\<lparr>item_id = uuid, charmIndex = idx, item_x = 0.5, item_y = 0.5,
                    item_z = 0.28\<rparr>]\<rparr>,
               uuid_count := n'\<rparr>)
      else p)"

definition zoomIn :: "page \<Rightarrow> page" where
  "zoomIn p = p\<lparr>state := (state p)\<lparr>zoom := min (zoom (state p) + 0.1) 2\<rparr>\<rparr>"

definition zoomOut :: "page \<Rightarrow> page" where
  "zoomOut p = p\<lparr>state := (state p)\<lparr>zoom := max (zoom (state p) - 0.1) 0.4\<rparr>\<rparr>"

definition handleReset :: "page \<Rightarrow> page" where
  "handleReset p =
     showConfirm ''Reset Desain?'' ''Semua perubahan akan dihapus dan kembali ke awal.''
       ConfirmReset p"

text \<open>Running the stored \<open>onConfirm\<close> closure.\<close>

fun run_confirm :: "confirm_action \<Rightarrow> page \<Rightarrow> page" where
  "run_confirm NoAction p = p"
| "run_confirm ConfirmSwitchFixed p = p\<lparr>state := (state p)\<lparr>mode := Fixed\<rparr>\<rparr>"
| "run_confirm ConfirmReset p = p\<lparr>state := initial_state, isEditing := True\<rparr>"

text \<open>The two buttons of the modal: \<open>Ya, Lanjutkan\<close> and \<open>Batal\<close>.\<close>

definition confirmYes :: "page \<Rightarrow> page" where
  "confirmYes p = closeConfirm (run_confirm (onConfirm (confirmModal p)) p)"

definition confirmCancel :: "page \<Rightarrow> page" where
  "confirmCancel p = closeConfirm p"

subsection \<open>Events\<close>

text \<open>
  An event on a control that the page does not render in its current state cannot
  occur; \<open>step\<close> leaves the page unchanged there. The slot controls are rendered in
  fixed mode, the editor toolbar and the palette in manual mode, the button
  \<open>Hapus Semua Charm\<close> in manual mode with a non-empty list, the modal's buttons while
  the modal is open.
\<close>

datatype slot_name = SlotA | SlotB | SlotC

datatype event =
  SelectBase int
  | SelectSlot slot_name "int option"
  | SwitchMode mode
  | SetEditing bool
  | CanvasDown pointer_event
  | CanvasMove pointer_event
  | CanvasUp
  | Drop "int option" real real
  | PaletteClick int
  | ClearAll
  | ZoomIn
  | ZoomOut
  | ResetClick
  | ConfirmYes
  | ConfirmCancel

fun set_slot :: "slot_name \<Rightarrow> int option \<Rightarrow> slots \<Rightarrow> slots" where
  "set_slot SlotA v sl = sl\<lparr>slot_A := v\<rparr>"
| "set_slot SlotB v sl = sl\<lparr>slot_B := v\<rparr>"
| "set_slot SlotC v sl = sl\<lparr>slot_C := v\<rparr>"

fun step :: "event \<Rightarrow> page \<Rightarrow> page" where
  "step (SelectBase idx) p = p\<lparr>state := (state p)\<lparr>baseIndex := idx\<rparr>\<rparr>"
| "step (SelectSlot sn v) p =
     (if mode (state p) = Fixed
      then p\<lparr>state := (state p)\<lparr>slots := set_slot sn v (slots (state p))\<rparr>\<rparr>
      else p)"
| "step (SwitchMode m) p = switchMode m p"
| "step (SetEditing b) p = (if mode (state p) = Manual then p\<lparr>isEditing := b\<rparr> else p)"
| "step (CanvasDown e) p = handleCanvasMouseDown e p"
| "step (CanvasMove e) p = handleCanvasMouseMove e p"
| "step CanvasUp p = handleCanvasMouseUp p"
| "step (Drop payload clientX clientY) p = handleDrop payload clientX clientY p"
| "step (PaletteClick idx) p = (if mode (state p) = Manual then paletteClick idx p else p)"
| "step ClearAll p =
     (if mode (state p) = Manual \<and> manualItems (state p) \<noteq> []
      then p\<lparr>state := (state p)\<lparr>manualItems := []\<rparr>\<rparr>
      else p)"
| "step ZoomIn p = zoomIn p"
| "step ZoomOut p = zoomOut p"
| "step ResetClick p = handleReset p"
| "step ConfirmYes p = (if isOpen (confirmModal p) then confirmYes p else p)"
| "step ConfirmCancel p = (if isOpen (confirmModal p) then confirmCancel p else p)"

text \<open>The page after a sequence of events, the first event of the list first.\<close>

fun run :: "event list \<Rightarrow> page \<Rightarrow> page" where
  "run [] p = p"
| "run (e # es) p = run es (step e p)"

subsection \<open>Image loading with a cache\<close>

text \<open>
  An \<open>HTMLImageElement\<close>: the object's identity and its \<open>width\<close> and \<open>height\<close>.
\<close>

record image =
  img_obj :: nat
  img_width :: nat
  img_height :: nat

text \<open>
  The state of the loader: the map \<open>imageCache.current\<close>, and the log of the paths for
  which \<open>new window.Image()\<close> and \<open>img.decode()\<close> were called, in call order. The log
  is not a variable of the source; it records the effect the cache is there to avoid.
  The identity of a new image object is its position in the log.
\<close>

record 'p loader =
  imageCache :: "'p \<rightharpoonup> image"
  decode_log :: "'p list"


text \<open>
  What the browser does with one image is an input: \<open>decode()\<close> fulfils (with the
  image's dimensions); or it rejects and, in the fallback promise, \<open>onload\<close> fires, or
  \<open>onerror\<close> fires, or neither of the two fires.
\<close>

datatype decode_outcome =
  Decoded nat nat
  | LoadedAfterError nat nat
  | Failed
  | Stalled

datatype 'a promise = Fulfilled 'a | Rejected | Pending

text \<open>
  \<open>loadImage\<close> is an async function: it runs up to \<open>await img.decode()\<close> when it is
  called (\<open>loadImage_start\<close>) and the rest when the browser is done with the image
  (\<open>loadImage_finish\<close>). Its only caller is \<open>render\<close>, which the page never calls;
  the function is given here for what it does taken alone.
\<close>

datatype started = CacheHit image | Decoding nat

definition loadImage_start :: "'p \<Rightarrow> 'p loader \<Rightarrow> started \<times> 'p loader" where
  "loadImage_start src L =
     (case imageCache L src of
        Some img \<Rightarrow> (CacheHit img, L)
      | None \<Rightarrow> (Decoding (length (decode_log L)), L\<lparr>decode_log := decode_log L @ [src]\<rparr>))"

definition loadImage_finish ::
  "decode_outcome \<Rightarrow> 'p \<Rightarrow> started \<Rightarrow> 'p loader \<Rightarrow> image option promise \<times> 'p loader" where
  "loadImage_finish env src st L =
     (case st of
        CacheHit img \<Rightarrow> (Fulfilled (Some img), L)
      | Decoding obj \<Rightarrow>
          (case env of
             Decoded w h \<Rightarrow>
               (let img = \<lparr>img_obj = obj, img_width = w, img_height = h\<rparr>
                in (Fulfilled (Some img), L\<lparr>imageCache := (imageCache L)(src \<mapsto> img)\<rparr>))
           | LoadedAfterError w h \<Rightarrow>
               (let img = \<lparr>img_obj = obj, img_width = w, img_height = h\<rparr>
                in (Fulfilled (Some img), L\<lparr>imageCache := (imageCache L)(src \<mapsto> img)\<rparr>))
           | Failed \<Rightarrow> (Fulfilled None, L)
           | Stalled \<Rightarrow> (Pending, L)))"

text \<open>One call run from start to end with no other call in between.\<close>

definition loadImage ::
  "decode_outcome \<Rightarrow> 'p \<Rightarrow> 'p loader \<Rightarrow> image option promise \<times> 'p loader" where
  "loadImage env src L =
     (case loadImage_start src L of (st, L1) \<Rightarrow> loadImage_finish env src st L1)"

subsection \<open>The render effect\<close>

text \<open>
  \<open>ASSETS\<close> is imported from \<open>../lib/constants\<close>; the two catalogs are parameters here.
  Indexing an array outside its bounds gives \<open>undefined\<close>, the value \<open>None\<close>.
\<close>

record assets =
  keychains :: "string list"
  animals :: "string list"

definition js_index :: "'a list \<Rightarrow> int \<Rightarrow> 'a option" where
  "js_index xs i = (if 0 \<le> i \<and> i < int (length xs) then Some (xs ! nat i) else None)"

text \<open>
  The list \<open>charmRequests\<close> that \<open>render\<close> builds from the state: which charms it would
  draw, and where. No arithmetic enters it.
\<close>

record charm_request =
  req_path :: "string option"
  req_x :: real
  req_y :: real
  req_scale :: real
  req_isSelected :: bool
  req_id :: "nat option"

definition slot_request :: "assets \<Rightarrow> int option \<Rightarrow> position \<Rightarrow> charm_request list" where
  "slot_request A v pos =
     (case v of
        None \<Rightarrow> []
      | Some c \<Rightarrow>
          [\<lparr>req_path = js_index (animals A) c, req_x = pos_x pos, req_y = pos_y pos,
            req_scale = pos_scale pos, req_isSelected = False, req_id = None\<rparr>])"

definition charmRequests :: "assets \<Rightarrow> page \<Rightarrow> charm_request list" where
  "charmRequests A p =
     (if mode (state p) = Fixed then
        slot_request A (slot_A (slots (state p))) CHARM_POSITIONS_A
        @ slot_request A (slot_B (slots (state p))) CHARM_POSITIONS_B
        @ slot_request A (slot_C (slots (state p))) CHARM_POSITIONS_C
      else
        map (\<lambda>item.
               \<lparr>req_path = js_index (animals A) (charmIndex item), req_x = item_x item,
                req_y = item_y item, req_scale = item_z item,
                req_isSelected = (Some (item_id item) = draggedItem p),
                req_id = Some (item_id item)\<rparr>)
            (manualItems (state p)))"

text \<open>
  The calls on the 2D context and the assignments to its properties that occur in
  \<open>render\<close>. A numeric argument is a JavaScript number: finite, an infinity or NaN.
\<close>

datatype js_number = Finite real | PosInfinity | NegInfinity | NaN

datatype canvas_op =
  ClearRect js_number js_number js_number js_number
  | Save
  | Restore
  | Translate js_number js_number
  | Scale js_number js_number
  | SetShadowColor string
  | SetShadowBlur js_number
  | SetShadowOffsetY js_number
  | DrawImage image js_number js_number js_number js_number
  | SetFillStyle string
  | SetFont string
  | SetTextAlign string
  | FillText string js_number js_number
  | SetStrokeStyle string
  | SetLineWidth js_number
  | SetLineDash "js_number list"
  | StrokeRect js_number js_number js_number js_number
  | BeginPath
  | Arc js_number js_number js_number js_number js_number
  | Fill

text \<open>
  The effect that React runs after the page is mounted and after every change of
  \<open>state\<close>, \<open>isEditing\<close> or \<open>draggedItem\<close>:

  \<^verbatim>\<open>const canvas = canvasRef.current; if (!canvas) return;\<close>

  \<^verbatim>\<open>const ctx = canvas.getContext("2d"); if (!ctx) return; ... render(); ...\<close>

  Its result here is the list of operations on the 2D context and the loader after it.
  The catalogs and the browser's answers, which \<open>render\<close> would read, are arguments.
\<close>

definition render_effect ::
  "assets \<Rightarrow> (nat \<Rightarrow> decode_outcome) \<Rightarrow> page \<Rightarrow> string option loader
   \<Rightarrow> canvas_op list \<times> string option loader" where
  "render_effect A browser p L = (case canvasRef_current of None \<Rightarrow> ([], L))"


subsection \<open>Auxiliary notions used in the statements\<close>

text \<open>
  The populated slots in the order bottom, middle, top (A, B, C), each with its fixed
  position: the list the fixed-to-manual conversion is compared with.
\<close>

definition populated_slots :: "slots \<Rightarrow> (int \<times> position) list" where
  "populated_slots sl =
     List.map_filter (\<lambda>(v, pos). map_option (\<lambda>c. (c, pos)) v)
       [(slot_A sl, CHARM_POSITIONS_A), (slot_B sl, CHARM_POSITIONS_B),
        (slot_C sl, CHARM_POSITIONS_C)]"

text \<open>
  Every id in the list was drawn from the supply, and no id occurs twice.
\<close>

definition ids_fresh :: "page \<Rightarrow> bool" where
  "ids_fresh p =
     (list_all (\<lambda>i. i < uuid_count p) (map item_id (manualItems (state p)))
      \<and> distinct (map item_id (manualItems (state p))))"

text \<open>The centre of an item lies in the unit square.\<close>

definition in_unit :: "charm_item \<Rightarrow> bool" where
  "in_unit it = (0 \<le> item_x it \<and> item_x it \<le> 1 \<and> 0 \<le> item_y it \<and> item_y it \<le> 1)"

text \<open>
  The page after a click on \<open>Free Drag\<close> and a click on the first charm of the palette:
  manual mode, editing sub-mode, one item at (0.5, 0.5) with scale 0.28.
\<close>

definition one_item_page :: page where
  "one_item_page = run [SwitchMode Manual, PaletteClick 0] initial_page"

section \<open>Properties\<close>

subsection \<open>Mode switching\<close>

lemma push_slot_ids:
  assumes "push_slot v pos (n, xs) = (n', ys)"
    and "list_all (\<lambda>i. i < n) (map item_id xs)" and "distinct (map item_id xs)"
  shows "n \<le> n' \<and> list_all (\<lambda>i. i < n') (map item_id ys) \<and> distinct (map item_id ys)"
proof (cases v)
  case None
  with assms show ?thesis by simp
next
  case (Some c)
  from assms(2) have "list_all (\<lambda>i. i < Suc n) (map item_id xs)"
    by (simp add: list_all_iff less_Suc_eq)
  moreover from assms(2) have "n \<notin> item_id ` set xs"
    by (auto simp: list_all_iff)
  ultimately show ?thesis using assms(1,3) Some
    by (auto simp: randomUUID_def)
qed

lemma slots_to_items_ids:
  assumes "slots_to_items sl n = (n', items)"
  shows "n \<le> n' \<and> list_all (\<lambda>i. i < n') (map item_id items) \<and> distinct (map item_id items)"
proof -
  obtain n1 xs1 where a: "push_slot (slot_A sl) CHARM_POSITIONS_A (n, []) = (n1, xs1)"
    by (cases "push_slot (slot_A sl) CHARM_POSITIONS_A (n, [])")
  obtain n2 xs2 where b: "push_slot (slot_B sl) CHARM_POSITIONS_B (n1, xs1) = (n2, xs2)"
    by (cases "push_slot (slot_B sl) CHARM_POSITIONS_B (n1, xs1)")
  from assms a b have c: "push_slot (slot_C sl) CHARM_POSITIONS_C (n2, xs2) = (n', items)"
    by (simp add: slots_to_items_def)
  have 1: "n \<le> n1 \<and> list_all (\<lambda>i. i < n1) (map item_id xs1) \<and> distinct (map item_id xs1)"
    using push_slot_ids [OF a] by simp
  then have 2: "n1 \<le> n2 \<and> list_all (\<lambda>i. i < n2) (map item_id xs2) \<and> distinct (map item_id xs2)"
    using push_slot_ids [OF b] by simp
  then have "n2 \<le> n' \<and> list_all (\<lambda>i. i < n') (map item_id items) \<and> distinct (map item_id items)"
    using push_slot_ids [OF c] by simp
  with 1 2 show ?thesis by simp
qed

lemma slots_to_items_populated:
  "map (\<lambda>it. (charmIndex it, item_x it, item_y it, item_z it)) (snd (slots_to_items sl n))
   = map (\<lambda>(c, pos). (c, pos_x pos, pos_y pos, pos_scale pos)) (populated_slots sl)"
  by (cases "slot_A sl"; cases "slot_B sl"; cases "slot_C sl")
     (simp_all add: slots_to_items_def populated_slots_def List.map_filter_def randomUUID_def)

lemma slots_to_items_from:
  "list_all (\<lambda>i. n \<le> i) (map item_id (snd (slots_to_items sl n)))"
  by (cases "slot_A sl"; cases "slot_B sl"; cases "slot_C sl")
     (simp_all add: slots_to_items_def randomUUID_def)

text \<open>
  Claim C1 as stated fails. The closure run on confirmation is
  \<open>setState(s => ({ ...s, mode: 'fixed' }))\<close>, which leaves \<open>manualItems\<close> as it was:
  after switching to manual mode, clicking a palette charm, asking for fixed mode and
  confirming, the mode is fixed and the list still holds the item.
\<close>

theorem manual_to_fixed_keeps_items:
  "mode (state (run [SwitchMode Manual, PaletteClick 0] initial_page)) = Manual
   \<and> mode (state (run [SwitchMode Manual, PaletteClick 0, SwitchMode Fixed, ConfirmYes]
        initial_page)) = Fixed
   \<and> manualItems (state (run [SwitchMode Manual, PaletteClick 0, SwitchMode Fixed, ConfirmYes]
        initial_page))
     = [\<lparr>item_id = 0, charmIndex = 0, item_x = 0.5, item_y = 0.5, item_z = 0.28\<rparr>]"
  by (simp add: initial_page_def initial_state_def switchMode_def slots_to_items_def
      paletteClick_def randomUUID_def showConfirm_def confirmYes_def closeConfirm_def)

text \<open>
  Claim C1, amended. From a page in manual mode, asking for fixed mode only opens the
  confirmation modal and leaves the selection state as it is. Confirming sets the mode
  to fixed and changes nothing else of the selection state: \<open>manualItems\<close> is kept
  (it is not drawn in fixed mode, and the next switch to manual mode replaces it by the
  items made from the slots). Declining leaves the selection state, so the mode and
  \<open>manualItems\<close>, unchanged. Asking for the mode the page is already in changes nothing.
\<close>

theorem manual_to_fixed_confirmed:
  assumes "mode (state p) = Manual"
  shows "state (step (SwitchMode Fixed) p) = state p
    \<and> isOpen (confirmModal (step (SwitchMode Fixed) p))
    \<and> state (step ConfirmYes (step (SwitchMode Fixed) p)) = (state p)\<lparr>mode := Fixed\<rparr>
    \<and> mode (state (step ConfirmYes (step (SwitchMode Fixed) p))) = Fixed
    \<and> manualItems (state (step ConfirmYes (step (SwitchMode Fixed) p)))
      = manualItems (state p)
    \<and> state (step ConfirmCancel (step (SwitchMode Fixed) p)) = state p
    \<and> step (SwitchMode (mode (state p))) p = p
    \<and> manualItems (state (step (SwitchMode Manual)
         (step ConfirmYes (step (SwitchMode Fixed) p))))
      = snd (slots_to_items (slots (state p)) (uuid_count p))"
  using assms
  by (simp add: switchMode_def showConfirm_def confirmYes_def confirmCancel_def
      closeConfirm_def split: prod.split)

text \<open>
  Claim C1, amended, at a concrete input: a page in manual mode with one item.
\<close>

theorem manual_to_fixed_confirmed_witness:
  "mode (state (run [SwitchMode Manual, PaletteClick 0] initial_page)) = Manual
   \<and> manualItems (state (step ConfirmYes (step (SwitchMode Fixed)
        (run [SwitchMode Manual, PaletteClick 0] initial_page))))
     = manualItems (state (run [SwitchMode Manual, PaletteClick 0] initial_page))
   \<and> mode (state (step ConfirmCancel (step (SwitchMode Fixed)
        (run [SwitchMode Manual, PaletteClick 0] initial_page)))) = Manual"
proof -
  define q where "q = run [SwitchMode Manual, PaletteClick 0] initial_page"
  have m: "mode (state q) = Manual"
    unfolding q_def
    by (simp add: initial_page_def initial_state_def switchMode_def slots_to_items_def
        paletteClick_def randomUUID_def)
  from manual_to_fixed_confirmed [OF m] m
  have "mode (state q) = Manual
    \<and> manualItems (state (step ConfirmYes (step (SwitchMode Fixed) q)))
      = manualItems (state q)
    \<and> mode (state (step ConfirmCancel (step (SwitchMode Fixed) q))) = Manual"
    by (simp del: step.simps)
  then show ?thesis unfolding q_def .
qed

text \<open>
  Claim C2. From a page in fixed mode, switching to manual mode enters manual mode in
  the editing sub-state and makes \<open>manualItems\<close> the list with one item per populated
  slot (bottom, middle, top, in this order), carrying the slot's charm index and placed
  at the slot's fixed coordinates and scale. The ids of the items are pairwise distinct
  and are drawn from the supply at this switch (none was drawn before). With only the
  bottom slot populated, the list is the single item at (0.5, 0.85) with scale 0.28.
\<close>

theorem fixed_to_manual_items:
  assumes "mode (state p) = Fixed"
  shows "mode (state (step (SwitchMode Manual) p)) = Manual
    \<and> isEditing (step (SwitchMode Manual) p)
    \<and> map (\<lambda>it. (charmIndex it, item_x it, item_y it, item_z it))
        (manualItems (state (step (SwitchMode Manual) p)))
      = map (\<lambda>(c, pos). (c, pos_x pos, pos_y pos, pos_scale pos))
          (populated_slots (slots (state p)))
    \<and> distinct (map item_id (manualItems (state (step (SwitchMode Manual) p))))
    \<and> list_all (\<lambda>i. uuid_count p \<le> i \<and> i < uuid_count (step (SwitchMode Manual) p))
        (map item_id (manualItems (state (step (SwitchMode Manual) p))))
    \<and> (slots (state p) = \<lparr>slot_A = Some c, slot_B = None, slot_C = None\<rparr> \<longrightarrow>
        manualItems (state (step (SwitchMode Manual) p))
        = [\<lparr>item_id = uuid_count p, charmIndex = c, item_x = 0.5, item_y = 0.85,
            item_z = 0.28\<rparr>])"
proof -
  obtain n' items where si: "slots_to_items (slots (state p)) (uuid_count p) = (n', items)"
    by (cases "slots_to_items (slots (state p)) (uuid_count p)")
  with assms have p': "step (SwitchMode Manual) p
      = p\<lparr>state := (state p)\<lparr>mode := Manual, manualItems := items\<rparr>,
          isEditing := True, uuid_count := n'\<rparr>"
    by (simp add: switchMode_def)
  have a: "map (\<lambda>it. (charmIndex it, item_x it, item_y it, item_z it)) items
      = map (\<lambda>(c, pos). (c, pos_x pos, pos_y pos, pos_scale pos))
          (populated_slots (slots (state p)))"
    using slots_to_items_populated [of "slots (state p)" "uuid_count p"] si by simp
  have b: "list_all (\<lambda>i. i < n') (map item_id items)" "distinct (map item_id items)"
    using slots_to_items_ids [OF si] by simp_all
  have c: "list_all (\<lambda>i. uuid_count p \<le> i) (map item_id items)"
    using slots_to_items_from [of "uuid_count p" "slots (state p)"] si by simp
  have d: "list_all (\<lambda>i. uuid_count p \<le> i \<and> i < n') (map item_id items)"
    using b(1) c by (simp add: list_all_iff)
  have e: "slots (state p) = \<lparr>slot_A = Some c, slot_B = None, slot_C = None\<rparr> \<longrightarrow>
      items = [\<lparr>item_id = uuid_count p, charmIndex = c, item_x = 0.5, item_y = 0.85,
                item_z = 0.28\<rparr>]"
    using si by (auto simp: slots_to_items_def randomUUID_def CHARM_POSITIONS_A_def)
  show ?thesis
    unfolding p' using a b(2) d e by simp
qed

text \<open>
  Claim C2, at a concrete input: charm 3 in the bottom slot of the initial page, then
  the switch to manual mode.
\<close>

theorem fixed_to_manual_items_witness:
  "mode (state (step (SelectSlot SlotA (Some 3)) initial_page)) = Fixed
   \<and> slots (state (step (SelectSlot SlotA (Some 3)) initial_page))
     = \<lparr>slot_A = Some 3, slot_B = None, slot_C = None\<rparr>
   \<and> manualItems (state (step (SwitchMode Manual)
        (step (SelectSlot SlotA (Some 3)) initial_page)))
     = [\<lparr>item_id = 0, charmIndex = 3, item_x = 0.5, item_y = 0.85, item_z = 0.28\<rparr>]"
proof -
  have m: "mode (state (step (SelectSlot SlotA (Some 3)) initial_page)) = Fixed"
    by (simp add: initial_page_def initial_state_def)
  have s: "slots (state (step (SelectSlot SlotA (Some 3)) initial_page))
      = \<lparr>slot_A = Some 3, slot_B = None, slot_C = None\<rparr>"
    by (simp add: initial_page_def initial_state_def)
  have u: "uuid_count (step (SelectSlot SlotA (Some 3)) initial_page) = 0"
    by (simp add: initial_page_def initial_state_def)
  from fixed_to_manual_items [OF m, of 3] s u m show ?thesis by simp
qed

text \<open>
  In fixed mode \<open>render\<close> takes its charms from the slots: the list of requests does
  not depend on \<open>manualItems\<close>.
\<close>

lemma fixed_mode_requests_from_slots:
  assumes "mode (state p) = Fixed"
  shows "charmRequests A (p\<lparr>state := (state p)\<lparr>manualItems := items\<rparr>\<rparr>) = charmRequests A p"
  using assms by (simp add: charmRequests_def)

subsection \<open>Zoom\<close>

lemma zoom_step_cases:
  "zoom (state (step e p)) = zoom (state p)
   \<or> zoom (state (step e p)) = min (zoom (state p) + 0.1) 2
   \<or> zoom (state (step e p)) = max (zoom (state p) - 0.1) 0.4
   \<or> zoom (state (step e p)) = 0.65"
proof (cases e)
  case (SwitchMode m)
  then show ?thesis
    by (simp add: switchMode_def showConfirm_def split: prod.split)
next
  case (CanvasDown ev)
  then show ?thesis
    by (simp add: handleCanvasMouseDown_def canvasRef_current_def)
next
  case (CanvasMove ev)
  then show ?thesis
    by (simp add: handleCanvasMouseMove_def canvasRef_current_def split: option.split)
next
  case CanvasUp
  then show ?thesis
    by (simp add: handleCanvasMouseUp_def split: option.split)
next
  case (Drop payload cx cy)
  then show ?thesis
    by (simp add: handleDrop_def canvasRef_current_def split: option.split)
next
  case (PaletteClick idx)
  then show ?thesis
    by (simp add: paletteClick_def randomUUID_def)
next
  case ConfirmYes
  then show ?thesis
    by (cases "onConfirm (confirmModal p)")
       (simp_all add: confirmYes_def closeConfirm_def initial_state_def)
next
  case ConfirmCancel
  then show ?thesis
    by (simp add: confirmCancel_def closeConfirm_def)
qed (simp_all add: zoomIn_def zoomOut_def handleReset_def showConfirm_def)

lemma zoom_bounds_step:
  assumes "0.4 \<le> zoom (state p)" and "zoom (state p) \<le> 2"
  shows "0.4 \<le> zoom (state (step e p)) \<and> zoom (state (step e p)) \<le> 2"
  using assms zoom_step_cases [of e p] by (auto simp: min_def max_def)

lemma zoom_bounds_run:
  assumes "0.4 \<le> zoom (state p)" and "zoom (state p) \<le> 2"
  shows "0.4 \<le> zoom (state (run es p)) \<and> zoom (state (run es p)) \<le> 2"
  using assms
proof (induction es arbitrary: p)
  case Nil
  then show ?case by simp
next
  case (Cons e es)
  then show ?case using zoom_bounds_step [of p e] by simp
qed

text \<open>
  Claim C3. Starting from the default zoom 0.65, after every sequence of events of the
  page, and so after every sequence of presses of the two zoom buttons (which add 0.1
  and cap at 2, or subtract 0.1 and cap at 0.4), the zoom lies in the interval from
  0.4 to 2.
\<close>

theorem zoom_always_clamped:
  "zoom (state initial_page) = 0.65
   \<and> 0.4 \<le> zoom (state (run es initial_page))
   \<and> zoom (state (run es initial_page)) \<le> 2"
proof -
  have z: "zoom (state initial_page) = 0.65"
    by (simp add: initial_page_def initial_state_def)
  have "0.4 \<le> zoom (state (run es initial_page)) \<and> zoom (state (run es initial_page)) \<le> 2"
    by (rule zoom_bounds_run) (simp_all add: z)
  with z show ?thesis by simp
qed

subsection \<open>The canvas handlers\<close>

text \<open>
  With \<open>canvasRef.current\<close> null, a press, a move of the pointer and a drop leave the
  page as it is, whatever the event carries.
\<close>

lemma canvas_handlers_return:
  "step (CanvasDown e) p = p" "step (CanvasMove e) p = p" "step (Drop payload cx cy) p = p"
  by (simp_all add: handleCanvasMouseDown_def handleCanvasMouseMove_def handleDrop_def
      canvasRef_current_def split: option.split)

lemma never_dragging_step:
  assumes "draggedItem p = None"
  shows "draggedItem (step e p) = None"
proof (cases e)
  case (SwitchMode m)
  with assms show ?thesis
    by (simp add: switchMode_def showConfirm_def split: prod.split)
next
  case (CanvasDown ev)
  with assms show ?thesis by (simp only: canvas_handlers_return)
next
  case (CanvasMove ev)
  with assms show ?thesis by (simp only: canvas_handlers_return)
next
  case CanvasUp
  with assms show ?thesis
    by (simp add: handleCanvasMouseUp_def)
next
  case (Drop payload cx cy)
  with assms show ?thesis by (simp only: canvas_handlers_return)
next
  case (PaletteClick idx)
  with assms show ?thesis
    by (simp add: paletteClick_def randomUUID_def)
next
  case ConfirmYes
  with assms show ?thesis
    by (cases "onConfirm (confirmModal p)") (simp_all add: confirmYes_def closeConfirm_def)
next
  case ConfirmCancel
  with assms show ?thesis
    by (simp add: confirmCancel_def closeConfirm_def)
qed (use assms in \<open>simp_all add: zoomIn_def zoomOut_def handleReset_def showConfirm_def\<close>)

lemma never_dragging_run: "draggedItem p = None \<Longrightarrow> draggedItem (run es p) = None"
  by (induction es arbitrary: p) (simp_all add: never_dragging_step)

lemma never_dragging: "draggedItem (run es initial_page) = None"
  by (rule never_dragging_run) (simp add: initial_page_def)

lemma one_item_page_eq:
  "one_item_page
   = initial_page\<lparr>state := initial_state\<lparr>mode := Manual, manualItems :=
       [\<lparr>item_id = 0, charmIndex = 0, item_x = 0.5, item_y = 0.5, item_z = 0.28\<rparr>]\<rparr>,
       uuid_count := 1\<rparr>"
  by (simp add: one_item_page_def initial_page_def initial_state_def switchMode_def
      slots_to_items_def paletteClick_def randomUUID_def)

text \<open>
  Claim C4, on the page as it is. The page is in manual mode with the editing sub-mode
  active and holds one item, at (0.5, 0.5). A press on the canvas, wherever the pointer
  is and so also on the centre of the item, returns at \<open>if (!canvas) return\<close> before
  the hit test: no item is selected, no drag starts, the page is unchanged.
\<close>

theorem press_on_item_selects_nothing:
  "mode (state one_item_page) = Manual \<and> isEditing one_item_page
   \<and> manualItems (state one_item_page)
     = [\<lparr>item_id = 0, charmIndex = 0, item_x = 0.5, item_y = 0.5, item_z = 0.28\<rparr>]
   \<and> step (CanvasDown e) one_item_page = one_item_page
   \<and> draggedItem (step (CanvasDown e) one_item_page) = None"
proof -
  have "draggedItem one_item_page = None"
    unfolding one_item_page_def by (rule never_dragging)
  then show ?thesis
    by (simp only: canvas_handlers_return) (simp add: one_item_page_eq initial_page_def)
qed

text \<open>
  Claim C5, on the page as it is. After a press on the item and a move of the pointer,
  wherever the two events are, no item is being dragged and the item is where it was:
  the move has updated no \<open>x\<close> and no \<open>y\<close>.
\<close>

theorem drag_does_not_move_item:
  "draggedItem (run [SwitchMode Manual, PaletteClick 0, CanvasDown e1] initial_page) = None
   \<and> manualItems (state
        (run [SwitchMode Manual, PaletteClick 0, CanvasDown e1, CanvasMove e2] initial_page))
     = [\<lparr>item_id = 0, charmIndex = 0, item_x = 0.5, item_y = 0.5, item_z = 0.28\<rparr>]"
proof -
  have a: "run [SwitchMode Manual, PaletteClick 0, CanvasDown e1] initial_page = one_item_page"
    using canvas_handlers_return(1) [of e1 one_item_page]
    by (simp add: one_item_page_def)
  have b: "run [SwitchMode Manual, PaletteClick 0, CanvasDown e1, CanvasMove e2] initial_page
      = one_item_page"
    using canvas_handlers_return(1) [of e1 one_item_page]
      canvas_handlers_return(2) [of e2 one_item_page]
    by (simp add: one_item_page_def)
  have c: "draggedItem one_item_page = None"
    unfolding one_item_page_def by (rule never_dragging)
  show ?thesis
    unfolding a b using c by (simp add: one_item_page_eq)
qed

subsection \<open>Positions of the items\<close>

lemma slots_to_items_in_unit: "list_all in_unit (snd (slots_to_items sl n))"
  by (cases "slot_A sl"; cases "slot_B sl"; cases "slot_C sl")
     (simp_all add: slots_to_items_def randomUUID_def in_unit_def CHARM_POSITIONS_A_def
        CHARM_POSITIONS_B_def CHARM_POSITIONS_C_def)

lemma in_unit_step:
  assumes "list_all in_unit (manualItems (state p))"
  shows "list_all in_unit (manualItems (state (step e p)))"
proof (cases e)
  case (SwitchMode m)
  with assms slots_to_items_in_unit [of "slots (state p)" "uuid_count p"] show ?thesis
    by (auto simp: switchMode_def showConfirm_def split: prod.split)
next
  case (CanvasDown ev)
  with assms show ?thesis by (simp only: canvas_handlers_return)
next
  case (CanvasMove ev)
  with assms show ?thesis by (simp only: canvas_handlers_return)
next
  case CanvasUp
  with assms show ?thesis
    by (simp add: handleCanvasMouseUp_def split: option.split)
next
  case (Drop payload cx cy)
  with assms show ?thesis by (simp only: canvas_handlers_return)
next
  case (PaletteClick idx)
  with assms show ?thesis
    by (simp add: paletteClick_def randomUUID_def in_unit_def)
next
  case ConfirmYes
  with assms show ?thesis
    by (cases "onConfirm (confirmModal p)")
       (simp_all add: confirmYes_def closeConfirm_def initial_state_def)
next
  case ConfirmCancel
  with assms show ?thesis
    by (simp add: confirmCancel_def closeConfirm_def)
qed (use assms in \<open>simp_all add: zoomIn_def zoomOut_def handleReset_def showConfirm_def\<close>)

lemma in_unit_run:
  "list_all in_unit (manualItems (state p)) \<Longrightarrow>
   list_all in_unit (manualItems (state (run es p)))"
  by (induction es arbitrary: p) (simp_all add: in_unit_step)

text \<open>
  Claim C6. After every sequence of events, every item of \<open>manualItems\<close> has \<open>x\<close> and
  \<open>y\<close> between 0 and 1. Items are created by the slot conversion and by the palette
  click, at constant positions inside the unit square; a drop creates no item and a
  move of the pointer updates none, since both handlers return at
  \<open>if (!canvas) return\<close>.
\<close>

theorem items_stay_in_unit_square:
  "list_all in_unit (manualItems (state (run es initial_page)))"
  by (rule in_unit_run) (simp add: initial_page_def initial_state_def)

subsection \<open>The image cache\<close>


lemma loadImage_cached:
  "imageCache L src = Some img \<Longrightarrow> loadImage env src L = (Fulfilled (Some img), L)"
  by (simp add: loadImage_def loadImage_start_def loadImage_finish_def)


lemma render_effect_returns: "render_effect A browser p L = ([], L)"
  by (simp add: render_effect_def canvasRef_current_def)



subsection \<open>What the effect draws\<close>

text \<open>
  Claim C8, on the page as it is. Whatever the page, the catalogs and the browser's
  answers, and so also when the base image cannot be decoded, the effect makes no
  operation on the 2D context and calls no \<open>loadImage\<close>: the text
  \<open>Error: Gagal memuat gambar base.\<close> is not drawn, at any position.
\<close>

theorem no_error_text_is_drawn:
  "render_effect A browser p L = ([], L)
   \<and> FillText ''Error: Gagal memuat gambar base.'' x y
       \<notin> set (fst (render_effect A browser p L))"
  by (simp add: render_effect_returns)

text \<open>
  Claim C9, on the page as it is. The page holds one item at (0.5, 0.5) with scale
  0.28; the list of requests that \<open>render\<close> would build has this one charm. The effect
  makes no operation on the 2D context: no image is drawn, in no rectangle.
\<close>

theorem charm_layer_is_not_drawn:
  "map (\<lambda>r. (req_x r, req_y r, req_scale r)) (charmRequests A one_item_page)
     = [(0.5, 0.5, 0.28)]
   \<and> fst (render_effect A browser one_item_page L) = []
   \<and> DrawImage img cx cy cw ch \<notin> set (fst (render_effect A browser one_item_page L))"
  by (simp add: render_effect_returns one_item_page_eq charmRequests_def)

subsection \<open>Ids and the palette click\<close>

lemma ids_fresh_step:
  assumes "ids_fresh p"
  shows "ids_fresh (step e p)"
proof (cases e)
  case (SwitchMode m)
  show ?thesis
  proof (cases "slots_to_items (slots (state p)) (uuid_count p)")
    case (Pair n' items)
    from slots_to_items_ids [OF Pair] assms SwitchMode Pair show ?thesis
      by (simp add: ids_fresh_def switchMode_def showConfirm_def)
  qed
next
  case (CanvasDown ev)
  with assms show ?thesis by (simp only: canvas_handlers_return)
next
  case (CanvasMove ev)
  with assms show ?thesis by (simp only: canvas_handlers_return)
next
  case CanvasUp
  with assms show ?thesis
    by (simp add: ids_fresh_def handleCanvasMouseUp_def split: option.split)
next
  case (Drop payload cx cy)
  with assms show ?thesis by (simp only: canvas_handlers_return)
next
  case (PaletteClick idx)
  with assms show ?thesis
    by (auto simp: ids_fresh_def paletteClick_def randomUUID_def list_all_iff less_Suc_eq)
next
  case ConfirmYes
  with assms show ?thesis
    by (cases "onConfirm (confirmModal p)")
       (simp_all add: ids_fresh_def confirmYes_def closeConfirm_def initial_state_def)
next
  case ConfirmCancel
  with assms show ?thesis
    by (simp add: ids_fresh_def confirmCancel_def closeConfirm_def)
qed (use assms in \<open>simp_all add: ids_fresh_def zoomIn_def zoomOut_def handleReset_def showConfirm_def\<close>)

lemma ids_fresh_run:
  "ids_fresh p \<Longrightarrow> ids_fresh (run es p)"
  by (induction es arbitrary: p) (simp_all add: ids_fresh_step)

lemma ids_fresh_initial: "ids_fresh initial_page"
  by (simp add: ids_fresh_def initial_page_def initial_state_def)

text \<open>
  Claim C10. In every reachable page in manual mode, a click on a palette charm with
  the editing sub-mode active appends, at the end of \<open>manualItems\<close>, a new item for that
  charm at (0.5, 0.5) with scale 0.28; its id is newly drawn, differs from the id of
  every item already in the list, and the ids of the new list are pairwise distinct.
  With the preview sub-mode active the click changes nothing.
\<close>

theorem palette_click_appends:
  assumes "mode (state (run es initial_page)) = Manual"
  shows "(isEditing (run es initial_page) \<longrightarrow>
       manualItems (state (step (PaletteClick idx) (run es initial_page)))
       = manualItems (state (run es initial_page)) @
           [\<lparr>item_id = uuid_count (run es initial_page), charmIndex = idx,
             item_x = 0.5, item_y = 0.5, item_z = 0.28\<rparr>]
       \<and> uuid_count (run es initial_page)
           \<notin> set (map item_id (manualItems (state (run es initial_page))))
       \<and> distinct (map item_id
           (manualItems (state (step (PaletteClick idx) (run es initial_page))))))
    \<and> (\<not> isEditing (run es initial_page) \<longrightarrow>
       step (PaletteClick idx) (run es initial_page) = run es initial_page)"
proof -
  let ?q = "run es initial_page"
  have f: "ids_fresh ?q"
    by (rule ids_fresh_run) (rule ids_fresh_initial)
  have g: "ids_fresh (step (PaletteClick idx) ?q)"
    using f by (rule ids_fresh_step)
  from f have 1: "uuid_count ?q \<notin> set (map item_id (manualItems (state ?q)))"
    by (auto simp: ids_fresh_def list_all_iff)
  from g have 2: "distinct (map item_id (manualItems (state (step (PaletteClick idx) ?q))))"
    unfolding ids_fresh_def by (rule conjunct2)
  have 3: "isEditing ?q \<longrightarrow>
      manualItems (state (step (PaletteClick idx) ?q))
      = manualItems (state ?q) @
          [\<lparr>item_id = uuid_count ?q, charmIndex = idx, item_x = 0.5, item_y = 0.5,
            item_z = 0.28\<rparr>]"
    using assms by (simp add: paletteClick_def randomUUID_def)
  have 4: "\<not> isEditing ?q \<longrightarrow> step (PaletteClick idx) ?q = ?q"
    using assms by (simp add: paletteClick_def)
  from 1 2 3 4 show ?thesis by blast
qed

text \<open>
  Claim C10, at concrete inputs: a click in the editing sub-mode and a click in the
  preview sub-mode, on a page that already holds one item.
\<close>

theorem palette_click_appends_witness:
  "mode (state (run [SwitchMode Manual, PaletteClick 2] initial_page)) = Manual
   \<and> isEditing (run [SwitchMode Manual, PaletteClick 2] initial_page)
   \<and> manualItems (state (step (PaletteClick 5)
        (run [SwitchMode Manual, PaletteClick 2] initial_page)))
     = [\<lparr>item_id = 0, charmIndex = 2, item_x = 0.5, item_y = 0.5, item_z = 0.28\<rparr>,
        \<lparr>item_id = 1, charmIndex = 5, item_x = 0.5, item_y = 0.5, item_z = 0.28\<rparr>]
   \<and> \<not> isEditing (run [SwitchMode Manual, PaletteClick 2, SetEditing False] initial_page)
   \<and> manualItems (state (step (PaletteClick 5)
        (run [SwitchMode Manual, PaletteClick 2, SetEditing False] initial_page)))
     = [\<lparr>item_id = 0, charmIndex = 2, item_x = 0.5, item_y = 0.5, item_z = 0.28\<rparr>]"
proof -
  define q where "q = run [SwitchMode Manual, PaletteClick 2] initial_page"
  define q2 where "q2 = run [SwitchMode Manual, PaletteClick 2, SetEditing False] initial_page"
  have r: "q = initial_page\<lparr>state := initial_state\<lparr>mode := Manual, manualItems :=
          [\<lparr>item_id = 0, charmIndex = 2, item_x = 0.5, item_y = 0.5, item_z = 0.28\<rparr>]\<rparr>,
          uuid_count := 1\<rparr>"
    unfolding q_def
    by (simp add: initial_page_def initial_state_def switchMode_def slots_to_items_def
        paletteClick_def randomUUID_def)
  have r2: "q2 = q\<lparr>isEditing := False\<rparr>"
    unfolding q_def q2_def
    by (simp add: initial_page_def initial_state_def switchMode_def slots_to_items_def
        paletteClick_def randomUUID_def)
  have m: "mode (state q) = Manual"
    by (simp add: r)
  have e: "isEditing q"
    by (simp add: r initial_page_def)
  have m2: "mode (state q2) = Manual"
    by (simp add: r2 r)
  have e2: "\<not> isEditing q2"
    by (simp add: r2)
  have i2: "manualItems (state q2)
      = [\<lparr>item_id = 0, charmIndex = 2, item_x = 0.5, item_y = 0.5, item_z = 0.28\<rparr>]"
    by (simp add: r2 r)
  have u: "uuid_count q = 1" "manualItems (state q)
      = [\<lparr>item_id = 0, charmIndex = 2, item_x = 0.5, item_y = 0.5, item_z = 0.28\<rparr>]"
    by (simp_all add: r)
  from palette_click_appends [of "[SwitchMode Manual, PaletteClick 2]" 5, folded q_def, OF m] e u
  have a: "manualItems (state (step (PaletteClick 5) q))
     = [\<lparr>item_id = 0, charmIndex = 2, item_x = 0.5, item_y = 0.5, item_z = 0.28\<rparr>,
        \<lparr>item_id = 1, charmIndex = 5, item_x = 0.5, item_y = 0.5, item_z = 0.28\<rparr>]"
    by (simp del: step.simps)
  from palette_click_appends
    [of "[SwitchMode Manual, PaletteClick 2, SetEditing False]" 5, folded q2_def, OF m2] e2 i2
  have b: "manualItems (state (step (PaletteClick 5) q2))
     = [\<lparr>item_id = 0, charmIndex = 2, item_x = 0.5, item_y = 0.5, item_z = 0.28\<rparr>]"
    by (simp del: step.simps)
  from m e a e2 b
  have "mode (state q) = Manual \<and> isEditing q
    \<and> manualItems (state (step (PaletteClick 5) q))
      = [\<lparr>item_id = 0, charmIndex = 2, item_x = 0.5, item_y = 0.5, item_z = 0.28\<rparr>,
         \<lparr>item_id = 1, charmIndex = 5, item_x = 0.5, item_y = 0.5, item_z = 0.28\<rparr>]
    \<and> \<not> isEditing q2
    \<and> manualItems (state (step (PaletteClick 5) q2))
      = [\<lparr>item_id = 0, charmIndex = 2, item_x = 0.5, item_y = 0.5, item_z = 0.28\<rparr>]"
    by blast
  then show ?thesis unfolding q_def q2_def .
qed

end
